theory Spec2Isabelle
  imports Complex_Main
begin

section \<open>JavaScript values\<close>

text \<open>
  The runner (\<^verbatim>\<open>runner.ts\<close>) and the page (\<^verbatim>\<open>page.tsx\<close>) handle values of type
  \<^verbatim>\<open>unknown\<close>. The model covers \<^verbatim>\<open>undefined\<close>, \<^verbatim>\<open>null\<close>, booleans, numbers, strings,
  arrays, ordinary objects, function objects and the object \<^verbatim>\<open>Object.prototype\<close> that every
  plain object inherits from. The datatype is well-founded, so every value of the model is
  acyclic.

  A number is a double. Only its identity matters here, so a double is named by the
  rational it denotes; \<open>Finite 0\<close> is \<^verbatim>\<open>+0\<close>, and \<^verbatim>\<open>-0\<close>, the infinities and the single
  \<^verbatim>\<open>NaN\<close> that JavaScript can observe are constructors of their own. Equality of this
  type is the SameValue relation on numbers: \<^verbatim>\<open>NaN\<close> equals itself and the two zeros differ.

  Arrays, objects and functions are reference values: each carries the reference that
  \<^verbatim>\<open>Object.is\<close> compares. A property is a data property holding a value, or an accessor
  property, given by what its getter does when the property is read: it throws, or it
  returns a value. An object lists its own enumerable string-keyed properties in the order
  of \<^verbatim>\<open>Object.keys\<close>, each key once; its prototype is \<^verbatim>\<open>Object.prototype\<close>. An array lists,
  for each index below its length, the property at that index, or \<open>None\<close> where the array has
  a hole; its prototype is \<^verbatim>\<open>Array.prototype\<close>.

  What a \<^verbatim>\<open>throw\<close> raises is an instance of \<^verbatim>\<open>Error\<close> (or of a subclass such as
  \<^verbatim>\<open>TypeError\<close>, \<^verbatim>\<open>RangeError\<close> and \<^verbatim>\<open>SyntaxError\<close>), given by its property \<^verbatim>\<open>message\<close>, or any
  other value.

  Outside the model are proxies, objects with another prototype, and properties that are
  not enumerable or are keyed by a symbol. Program code that the runner runs without
  calling it (a getter, a \<^verbatim>\<open>toString\<close>, a \<^verbatim>\<open>toJSON\<close>) is taken to do nothing but return or
  throw: its outcome depends on the value alone, and it makes no console call.
\<close>

type_synonym ref = nat

datatype number = NaN | PosInfinity | NegInfinity | NegZero | Finite rat

datatype func = Closure ref | ObjectPrototypeMethod string

datatype val =
    Undefined
  | Null
  | Bool bool
  | Num number
  | Str string
  | Arr ref "slot option list"
  | Obj ref "(string \<times> slot) list"
  | Fn func
  | ObjectPrototype
and slot = Data val | Getter "exn + val"
and exn = Error slot | Thrown val

text \<open>\<^verbatim>\<open>new Error(m)\<close>, and the errors the engine raises itself, have a string for a message.\<close>

definition new_Error :: "string \<Rightarrow> exn" where
  "new_Error m = Error (Data (Str m))"

text \<open>What reading a property does.\<close>

fun read :: "slot \<Rightarrow> exn + val" where
  "read (Data v) = Inr v"
| "read (Getter result) = result"

subsection \<open>Operators and built-ins used by \<^verbatim>\<open>deepEqual\<close>\<close>

fun typeof :: "val \<Rightarrow> string" where
  "typeof Undefined = ''undefined''"
| "typeof Null = ''object''"
| "typeof (Bool b) = ''boolean''"
| "typeof (Num n) = ''number''"
| "typeof (Str s) = ''string''"
| "typeof (Arr r xs) = ''object''"
| "typeof (Obj r ps) = ''object''"
| "typeof (Fn f) = ''function''"
| "typeof ObjectPrototype = ''object''"

text \<open>\<open>falsy v\<close> is the value of \<^verbatim>\<open>!v\<close>.\<close>

fun falsy :: "val \<Rightarrow> bool" where
  "falsy Undefined = True"
| "falsy Null = True"
| "falsy (Bool b) = (\<not> b)"
| "falsy (Num n) = (n = NaN \<or> n = NegZero \<or> n = Finite 0)"
| "falsy (Str s) = (s = [])"
| "falsy (Arr r xs) = False"
| "falsy (Obj r ps) = False"
| "falsy (Fn f) = False"
| "falsy ObjectPrototype = False"

text \<open>
  \<^verbatim>\<open>Object.is\<close>: primitives by SameValue, reference values by their reference.
\<close>

fun Object_is :: "val \<Rightarrow> val \<Rightarrow> bool" where
  "Object_is Undefined b = (b = Undefined)"
| "Object_is Null b = (b = Null)"
| "Object_is (Bool x) b = (b = Bool x)"
| "Object_is (Num x) b = (b = Num x)"
| "Object_is (Str x) b = (b = Str x)"
| "Object_is (Arr r xs) b = (case b of Arr r' ys \<Rightarrow> r = r' | _ \<Rightarrow> False)"
| "Object_is (Obj r ps) b = (case b of Obj r' qs \<Rightarrow> r = r' | _ \<Rightarrow> False)"
| "Object_is (Fn f) b = (b = Fn f)"
| "Object_is ObjectPrototype b = (b = ObjectPrototype)"

fun isArray :: "val \<Rightarrow> bool" where
  "isArray (Arr r xs) = True"
| "isArray v = False"

text \<open>
  The properties of \<^verbatim>\<open>Object.prototype\<close>. None is enumerable. All are methods except the
  accessor \<^verbatim>\<open>__proto__\<close>, whose getter returns the prototype of the object it is read from.
\<close>

definition ObjectPrototype_methods :: "string list" where
  "ObjectPrototype_methods =
     [''constructor'', ''hasOwnProperty'', ''isPrototypeOf'', ''propertyIsEnumerable'',
      ''toLocaleString'', ''toString'', ''valueOf'', ''__defineGetter__'',
      ''__defineSetter__'', ''__lookupGetter__'', ''__lookupSetter__'']"

text \<open>
  What reading \<^verbatim>\<open>o[key]\<close> returns when the object \<^verbatim>\<open>o\<close> has no own property \<^verbatim>\<open>key\<close>: the
  lookup goes on in \<^verbatim>\<open>Object.prototype\<close>, and ends in \<^verbatim>\<open>undefined\<close>.
\<close>

definition inherited :: "string \<Rightarrow> val" where
  "inherited key =
     (if key = ''__proto__'' then ObjectPrototype
      else if key \<in> set ObjectPrototype_methods then Fn (ObjectPrototypeMethod key)
      else Undefined)"

text \<open>
  \<^verbatim>\<open>Object.keys(o)\<close> and the property read \<^verbatim>\<open>o[key]\<close> throw a \<^verbatim>\<open>TypeError\<close> on
  \<^verbatim>\<open>undefined\<close> and \<^verbatim>\<open>null\<close>; the read of an accessor property does what its getter does.
  Both are written out for the objects \<^verbatim>\<open>deepEqual\<close> applies them to, and left unspecified
  on arrays, primitives and functions.
\<close>

fun Object_keys :: "val \<Rightarrow> exn + string list" where
  "Object_keys Undefined = Inl (new_Error ''Cannot convert undefined or null to object'')"
| "Object_keys Null = Inl (new_Error ''Cannot convert undefined or null to object'')"
| "Object_keys (Obj r ps) = Inr (map fst ps)"
| "Object_keys ObjectPrototype = Inr []"

fun get :: "val \<Rightarrow> string \<Rightarrow> exn + val" where
  "get Undefined key = Inl (new_Error ''Cannot read properties of undefined'')"
| "get Null key = Inl (new_Error ''Cannot read properties of null'')"
| "get (Obj r ps) key =
     (case map_of ps key of
        Some property \<Rightarrow> read property
      | None \<Rightarrow> Inr (inherited key))"
| "get ObjectPrototype key =
     Inr (if key = ''__proto__'' then Null
          else if key \<in> set ObjectPrototype_methods then Fn (ObjectPrototypeMethod key)
          else Undefined)"

text \<open>
  Arrays: \<^verbatim>\<open>a.length\<close>; the properties that \<^verbatim>\<open>a.every\<close> visits, each with its index (it
  skips the holes, and reads the property before it calls the callback); and the read
  \<^verbatim>\<open>b[index]\<close>, which is \<^verbatim>\<open>undefined\<close> at a hole and past the end.
\<close>

fun array_length :: "val \<Rightarrow> nat" where
  "array_length (Arr r xs) = length xs"

fun entries :: "val \<Rightarrow> (slot \<times> nat) list" where
  "entries (Arr r xs) =
     concat (map (\<lambda>(x, index). case x of None \<Rightarrow> [] | Some property \<Rightarrow> [(property, index)])
                 (zip xs [0..<length xs]))"

fun item :: "val \<Rightarrow> nat \<Rightarrow> exn + val" where
  "item (Arr r xs) index =
     (if index < length xs
      then (case xs ! index of None \<Rightarrow> Inr Undefined | Some property \<Rightarrow> read property)
      else Inr Undefined)"

text \<open>
  \<^verbatim>\<open>Array.prototype.every\<close> with a callback that may throw: it stops at the first
  element whose callback throws or returns false.
\<close>

fun every :: "('a \<Rightarrow> exn + bool) \<Rightarrow> 'a list \<Rightarrow> exn + bool" where
  "every f [] = Inr True"
| "every f (x # xs) =
     (case f x of
        Inl e \<Rightarrow> Inl e
      | Inr ok \<Rightarrow> if ok then every f xs else Inr False)"

lemma every_cong [fundef_cong]:
  "xs = ys \<Longrightarrow> (\<And>x. x \<in> set ys \<Longrightarrow> f x = g x) \<Longrightarrow> every f xs = every g ys"
  by (induction ys arbitrary: xs) (auto split: sum.splits)

text \<open>
  The call stack is finite: a call for which there is no room throws a \<^verbatim>\<open>RangeError\<close>
  (the message is the one of V8).
\<close>

definition stack_overflow :: exn where
  "stack_overflow = new_Error ''Maximum call stack size exceeded''"

section \<open>The sandbox runner\<close>

subsection \<open>\<^verbatim>\<open>deepEqual\<close>\<close>

text \<open>
  \<open>deepEqual room a b\<close> is the call \<^verbatim>\<open>deepEqual(a, b)\<close> made where the call stack has room
  for \<open>room\<close> further activations of \<^verbatim>\<open>deepEqual\<close> nested in this one. Of all the calls
  that \<^verbatim>\<open>deepEqual\<close> makes, only its calls of itself are counted.
\<close>

function deepEqual :: "nat \<Rightarrow> val \<Rightarrow> val \<Rightarrow> exn + bool" where
  "deepEqual room a b =
     (if Object_is a b then Inr True
      else if typeof a \<noteq> ''object'' \<or> typeof b \<noteq> ''object'' \<or> falsy a \<or> falsy b
        then Inr False
      else if isArray a \<and> isArray b then
        (if array_length a \<noteq> array_length b then Inr False
         else every (\<lambda>(property, index).
                case read property of Inl e \<Rightarrow> Inl e | Inr x \<Rightarrow>
                case item b index of Inl e \<Rightarrow> Inl e | Inr y \<Rightarrow>
                  if room = 0 then Inl stack_overflow
                  else deepEqual (room - 1) x y) (entries a))
      else if isArray a \<or> isArray b then Inr False
      else
        (case Object_keys a of Inl e \<Rightarrow> Inl e | Inr aKeys \<Rightarrow>
         case Object_keys b of Inl e \<Rightarrow> Inl e | Inr bKeys \<Rightarrow>
           if length aKeys \<noteq> length bKeys then Inr False
           else every (\<lambda>key.
                  case get a key of Inl e \<Rightarrow> Inl e | Inr x \<Rightarrow>
                  case get b key of Inl e \<Rightarrow> Inl e | Inr y \<Rightarrow>
                    if room = 0 then Inl stack_overflow
                    else deepEqual (room - 1) x y) aKeys))"
  by pat_completeness auto

lemma size_read: "read property = Inr x \<Longrightarrow> size x < size property"
  by (cases property) auto

lemma size_element: "Some property \<in> set xs \<Longrightarrow> size property < size (Arr r xs)"
  by (induction xs) auto

lemma size_property: "(k, property) \<in> set ps \<Longrightarrow> size property < size (Obj r ps)"
  by (induction ps) auto

lemma entries_element:
  "(property, index) \<in> set (entries (Arr r xs)) \<longleftrightarrow> index < length xs \<and> xs ! index = Some property"
proof -
  have "(property, index) \<in> set (entries (Arr r xs))
      \<longleftrightarrow> (Some property, index) \<in> set (zip xs [0..<length xs])"
    by (auto split: option.splits)
  also have "\<dots> \<longleftrightarrow> index < length xs \<and> xs ! index = Some property"
    by (auto simp: in_set_zip)
  finally show ?thesis .
qed

lemma size_entry:
  assumes "isArray a" and "(property, index) \<in> set (entries a)" and "read property = Inr x"
  shows "size x < size a"
proof (cases a)
  case (Arr r xs)
  with assms(2) have "index < length xs \<and> xs ! index = Some property"
    by (simp only: entries_element)
  then have "Some property \<in> set xs"
    by (metis nth_mem)
  then have "size property < size (Arr r xs)"
    by (rule size_element)
  with size_read [OF assms(3)] Arr show ?thesis
    by simp
qed (use assms(1) in simp_all)

lemma size_get:
  assumes "Object_keys a = Inr aKeys" and "key \<in> set aKeys" and "get a key = Inr x"
    and "typeof a = ''object''" and "\<not> falsy a" and "\<not> isArray a"
  shows "size x < size a"
proof (cases a)
  case (Obj r ps)
  with assms(1,2) have "map_of ps key \<noteq> None"
    by (auto simp: map_of_eq_None_iff)
  then obtain property where property: "map_of ps key = Some property"
    by blast
  then have "(key, property) \<in> set ps"
    by (rule map_of_SomeD)
  then have "size property < size (Obj r ps)"
    by (rule size_property)
  moreover from Obj property assms(3) have "size x < size property"
    by (simp add: size_read)
  ultimately show ?thesis
    using Obj by simp
next
  case ObjectPrototype
  with assms(1,2) show ?thesis by simp
qed (use assms(4,5,6) in simp_all)

lemma deepEqual_dom_all: "All deepEqual_dom"
proof (relation "measure (\<lambda>(room, a, b). size a)", goal_cases)
  case 1
  show ?case by simp
next
  case (2 room a b entry property index x y)
  then have "isArray a" and "(property, index) \<in> set (entries a)" and "read property = Inr x"
    by simp_all
  then have "size x < size a"
    by (rule size_entry)
  then show ?case by simp
next
  case (3 room a b aKeys bKeys key x y)
  then have "size x < size a"
    by (intro size_get [of a aKeys key x]) simp_all
  then show ?case by simp
qed

termination deepEqual
  by (rule deepEqual_dom_all)

declare deepEqual.simps [simp del]

subsection \<open>Built-ins and the program under test\<close>

text \<open>
  The conversions \<^verbatim>\<open>String(v)\<close>, \<^verbatim>\<open>JSON.stringify(v)\<close> and \<^verbatim>\<open>JSON.parse(text)\<close> belong to
  the JavaScript engine and are parameters of the model. \<^verbatim>\<open>String\<close> throws (so on an object
  without a callable \<^verbatim>\<open>toString\<close> or \<^verbatim>\<open>valueOf\<close> that yields a primitive) or returns a
  string. \<^verbatim>\<open>JSON.stringify\<close> throws, or returns \<^verbatim>\<open>undefined\<close> (\<open>None\<close>; so for \<^verbatim>\<open>undefined\<close> and
  for a function), or returns a text. \<^verbatim>\<open>JSON.parse\<close> throws a \<^verbatim>\<open>SyntaxError\<close> or returns the
  value. The engine also fixes the room the call stack has for nested activations of
  \<^verbatim>\<open>deepEqual\<close> when \<^verbatim>\<open>runTests\<close> calls it, and the message of the \<^verbatim>\<open>DataCloneError\<close> that
  \<^verbatim>\<open>postMessage\<close> throws on a value that cannot be cloned.
\<close>

record builtins =
  to_String :: "val \<Rightarrow> exn + string"
  JSON_stringify :: "val \<Rightarrow> exn + string option"
  JSON_parse :: "string \<Rightarrow> exn + val"
  call_stack :: nat
  DataCloneError_message :: string

text \<open>
  The program text is run by \<^verbatim>\<open>new Function\<close>, and the entry point is called once per
  case. What the text and the entry point do is the engine's business. The program is
  given the console the runner injects, of which it can observe one thing: whether a call
  returns or throws. The runner sees three things of a run: the calls made to that console,
  in order, each a verb with its arguments; how the run ended; and the state the program
  left behind (its variables and heap, of a type \<open>'s\<close> the runner never inspects). Every run
  is taken to end, and to leave the built-ins the runner uses, \<^verbatim>\<open>Object.prototype\<close> among
  them, as they were.

  The body of the wrapper function is the program text followed by
  \<^verbatim>\<open>return typeof solution !== "undefined" ? solution : module.exports;\<close>
  so the text either throws, or returns by a \<^verbatim>\<open>return\<close> of its own, or reaches its end
  with a value under the name \<^verbatim>\<open>solution\<close> (\<open>Undefined\<close> when the name is not declared) and
  a value in \<^verbatim>\<open>module.exports\<close>.
\<close>

datatype verb = ConsoleLog | ConsoleInfo | ConsoleWarn | ConsoleError

type_synonym call = "verb \<times> val list"

type_synonym console_seen = "verb \<Rightarrow> val list \<Rightarrow> exn option"

datatype completion = Return val | End val val

record 's engine =
  evaluate :: "console_seen \<Rightarrow> string \<Rightarrow> 's \<Rightarrow> call list \<times> (exn + completion) \<times> 's"
  invoke :: "console_seen \<Rightarrow> val \<Rightarrow> val list \<Rightarrow> 's \<Rightarrow> call list \<times> (exn + val) \<times> 's"

subsection \<open>Messages\<close>

record TestCase =
  name :: string
  args :: "val list"
  expected :: val

text \<open>
  An optional field of \<^verbatim>\<open>TestResult\<close> is \<open>None\<close> when the object has no such field or
  holds \<^verbatim>\<open>undefined\<close> there. The field \<^verbatim>\<open>error\<close> is declared a string, but holds whatever
  the \<^verbatim>\<open>message\<close> of a thrown \<^verbatim>\<open>Error\<close> is; so does the \<^verbatim>\<open>error\<close> of a response.
\<close>

record TestResult =
  name :: string
  pass :: bool
  error :: "val option"
  expected :: "string option"
  actual :: "string option"

text \<open>
  \<^verbatim>\<open>WorkerResponse\<close>: \<open>Success results logs\<close> is \<^verbatim>\<open>{ ok: true, results, logs }\<close> and
  \<open>Failure error logs\<close> is \<^verbatim>\<open>{ ok: false, error, logs }\<close>. In a \<^verbatim>\<open>WorkerRequest\<close> the field
  \<^verbatim>\<open>cases\<close> is \<open>None\<close> when it is \<^verbatim>\<open>null\<close> or \<^verbatim>\<open>undefined\<close>.
\<close>

datatype WorkerResponse =
    Success "TestResult list" "string list"
  | Failure val "string list"

record WorkerRequest =
  code :: string
  cases :: "TestCase list option"

subsection \<open>\<^verbatim>\<open>captureConsole\<close>\<close>

definition serialize :: "builtins \<Rightarrow> val \<Rightarrow> exn + string option" where
  "serialize B v =
     (case v of
        Str s \<Rightarrow> Inr (Some s)
      | _ \<Rightarrow> (case JSON_stringify B v of
                Inr json \<Rightarrow> Inr json
              | Inl e \<Rightarrow> (case to_String B v of
                           Inl e' \<Rightarrow> Inl e'
                         | Inr s \<Rightarrow> Inr (Some s))))"

text \<open>
  \<^verbatim>\<open>Array.prototype.map\<close> with a callback that may throw, and \<^verbatim>\<open>Array.prototype.join\<close>, to
  which an element that is \<^verbatim>\<open>undefined\<close> contributes the empty string.
\<close>

fun array_map :: "('a \<Rightarrow> exn + 'b) \<Rightarrow> 'a list \<Rightarrow> exn + 'b list" where
  "array_map f [] = Inr []"
| "array_map f (x # xs) =
     (case f x of
        Inl e \<Rightarrow> Inl e
      | Inr y \<Rightarrow> (case array_map f xs of Inl e \<Rightarrow> Inl e | Inr ys \<Rightarrow> Inr (y # ys)))"

fun join :: "string \<Rightarrow> string option list \<Rightarrow> string" where
  "join sep [] = []"
| "join sep [x] = (case x of None \<Rightarrow> [] | Some s \<Rightarrow> s)"
| "join sep (x # y # ys) = (case x of None \<Rightarrow> [] | Some s \<Rightarrow> s) @ sep @ join sep (y # ys)"

definition logger :: "builtins \<Rightarrow> val list \<Rightarrow> string list \<Rightarrow> exn + string list" where
  "logger B arguments logs =
     (case array_map (serialize B) arguments of
        Inl e \<Rightarrow> Inl e
      | Inr texts \<Rightarrow> Inr (logs @ [join '' '' texts]))"

fun console :: "builtins \<Rightarrow> verb \<Rightarrow> val list \<Rightarrow> string list \<Rightarrow> exn + string list" where
  "console B ConsoleLog = logger B"
| "console B ConsoleInfo = logger B"
| "console B ConsoleWarn = logger B"
| "console B ConsoleError = logger B"

text \<open>
  What the program sees of a console call (whether it throws does not depend on the
  buffer), and the effect on the buffer of the console calls of one run: a call that
  throws leaves the buffer as it is.
\<close>

definition console_seen :: "builtins \<Rightarrow> console_seen" where
  "console_seen B v arguments =
     (case console B v arguments [] of Inl e \<Rightarrow> Some e | Inr logs \<Rightarrow> None)"

definition record_calls :: "builtins \<Rightarrow> call list \<Rightarrow> string list \<Rightarrow> string list" where
  "record_calls B calls logs =
     foldl (\<lambda>logs (v, arguments).
              case console B v arguments logs of Inl e \<Rightarrow> logs | Inr logs' \<Rightarrow> logs')
       logs calls"

subsection \<open>\<^verbatim>\<open>runUserCode\<close>, \<^verbatim>\<open>serializeValue\<close>, \<^verbatim>\<open>runTests\<close>\<close>

definition runUserCode ::
  "'s engine \<Rightarrow> console_seen \<Rightarrow> string \<Rightarrow> 's \<Rightarrow> call list \<times> (exn + val) \<times> 's"
where
  "runUserCode E sandboxConsole source s =
     (case evaluate E sandboxConsole source s of
        (calls, Inl e, s') \<Rightarrow> (calls, Inl e, s')
      | (calls, Inr (Return v), s') \<Rightarrow> (calls, Inr v, s')
      | (calls, Inr (End solution module_exports), s') \<Rightarrow>
          (calls, Inr (if typeof solution \<noteq> ''undefined'' then solution else module_exports), s'))"

definition serializeValue :: "builtins \<Rightarrow> val \<Rightarrow> exn + string option" where
  "serializeValue B v =
     (case v of
        Str s \<Rightarrow> Inr (Some s)
      | _ \<Rightarrow> (case JSON_stringify B v of
                Inr json \<Rightarrow> Inr json
              | Inl e \<Rightarrow> (case to_String B v of
                           Inl e' \<Rightarrow> Inl e'
                         | Inr s \<Rightarrow> Inr (Some s))))"

text \<open>
  \<^verbatim>\<open>error instanceof Error ? error.message : String(error)\<close>: the read of \<^verbatim>\<open>message\<close> does
  what the property does, and \<^verbatim>\<open>String\<close> may throw.
\<close>

fun message :: "builtins \<Rightarrow> exn \<Rightarrow> exn + val" where
  "message B (Error (Data m)) = Inr m"
| "message B (Error (Getter result)) = result"
| "message B (Thrown v) = (case to_String B v of Inl e \<Rightarrow> Inl e | Inr s \<Rightarrow> Inr (Str s))"

text \<open>
  The body of the loop of \<^verbatim>\<open>runTests\<close>. The state is the program's state and the log
  buffer. The \<^verbatim>\<open>try\<close> block ends with the result it pushes, or throws; the \<^verbatim>\<open>catch\<close> block
  pushes a result, or throws itself, and then nothing catches what it throws.
\<close>

definition try_block ::
  "'s engine \<Rightarrow> builtins \<Rightarrow> val \<Rightarrow> TestCase \<Rightarrow> 's \<times> string list
    \<Rightarrow> (exn + TestResult) \<times> 's \<times> string list"
where
  "try_block E B solution testCase st =
     (case st of (s, logs) \<Rightarrow>
      case invoke E (console_seen B) solution (TestCase.args testCase) s of
        (calls, returned, s') \<Rightarrow>
        ((case returned of
            Inl e \<Rightarrow> Inl e
          | Inr got \<Rightarrow>
              (case deepEqual (call_stack B) got (TestCase.expected testCase) of
                 Inl e \<Rightarrow> Inl e
               | Inr equal \<Rightarrow>
                   if equal
                   then Inr \<lparr>TestResult.name = TestCase.name testCase, pass = True, error = None,
                             expected = None, actual = None\<rparr>
                   else (case serializeValue B (TestCase.expected testCase) of
                           Inl e \<Rightarrow> Inl e
                         | Inr expected_text \<Rightarrow>
                             (case serializeValue B got of
                                Inl e \<Rightarrow> Inl e
                              | Inr actual_text \<Rightarrow>
                                  Inr \<lparr>TestResult.name = TestCase.name testCase, pass = False,
                                       error = Some (Str ''Output mismatch.''),
                                       expected = expected_text, actual = actual_text\<rparr>)))),
         s', record_calls B calls logs))"

definition catch_block :: "builtins \<Rightarrow> TestCase \<Rightarrow> exn \<Rightarrow> exn + TestResult" where
  "catch_block B testCase e =
     (case message B e of
        Inl e' \<Rightarrow> Inl e'
      | Inr m \<Rightarrow> Inr \<lparr>TestResult.name = TestCase.name testCase, pass = False, error = Some m,
                      expected = None, actual = None\<rparr>)"

definition try_case ::
  "'s engine \<Rightarrow> builtins \<Rightarrow> val \<Rightarrow> TestCase \<Rightarrow> 's \<times> string list
    \<Rightarrow> (exn + TestResult) \<times> 's \<times> string list"
where
  "try_case E B solution testCase st =
     (case try_block E B solution testCase st of
        (Inl e, st') \<Rightarrow> (catch_block B testCase e, st')
      | (Inr result, st') \<Rightarrow> (Inr result, st'))"

fun for_cases ::
  "'s engine \<Rightarrow> builtins \<Rightarrow> val \<Rightarrow> TestResult list \<Rightarrow> TestCase list \<Rightarrow> 's \<times> string list
    \<Rightarrow> (exn + TestResult list) \<times> 's \<times> string list"
where
  "for_cases E B solution results [] st = (Inr results, st)"
| "for_cases E B solution results (testCase # rest) st =
     (case try_case E B solution testCase st of
        (Inl e, st') \<Rightarrow> (Inl e, st')
      | (Inr result, st') \<Rightarrow> for_cases E B solution (results @ [result]) rest st')"

definition runTests ::
  "'s engine \<Rightarrow> builtins \<Rightarrow> val \<Rightarrow> TestCase list \<Rightarrow> 's \<times> string list
    \<Rightarrow> (exn + TestResult list) \<times> 's \<times> string list"
where
  "runTests E B solution testCases st =
     (if typeof solution \<noteq> ''function''
      then (Inl (new_Error ''solution must be a function.''), st)
      else for_cases E B solution [] testCases st)"

subsection \<open>\<^verbatim>\<open>self.postMessage\<close> and \<^verbatim>\<open>self.onmessage\<close>\<close>

text \<open>
  \<^verbatim>\<open>postMessage\<close> makes a structured clone of the response. The clone of a function does not
  exist (a \<^verbatim>\<open>DataCloneError\<close>, an instance of \<^verbatim>\<open>Error\<close>, is thrown); the clone of an object
  reads its properties, and throws what a getter throws. \<open>clone_throws\<close> is what cloning a
  value throws, if anything. Of a response, all but the \<^verbatim>\<open>error\<close> fields are strings and
  booleans.
\<close>

fun first_thrown :: "('a \<Rightarrow> exn option) \<Rightarrow> 'a list \<Rightarrow> exn option" where
  "first_thrown f [] = None"
| "first_thrown f (x # xs) = (case f x of Some e \<Rightarrow> Some e | None \<Rightarrow> first_thrown f xs)"

lemma first_thrown_cong [fundef_cong]:
  "xs = ys \<Longrightarrow> (\<And>x. x \<in> set ys \<Longrightarrow> f x = g x) \<Longrightarrow> first_thrown f xs = first_thrown g ys"
  by (induction ys arbitrary: xs) (auto split: option.splits)

function (sequential) clone_throws :: "builtins \<Rightarrow> val \<Rightarrow> exn option" where
  "clone_throws B (Fn f) = Some (new_Error (DataCloneError_message B))"
| "clone_throws B (Arr r xs) =
     first_thrown (\<lambda>x. case x of
                         None \<Rightarrow> None
                       | Some property \<Rightarrow>
                           (case read property of Inl e \<Rightarrow> Some e | Inr v \<Rightarrow> clone_throws B v)) xs"
| "clone_throws B (Obj r ps) =
     first_thrown (\<lambda>p. case read (snd p) of Inl e \<Rightarrow> Some e | Inr v \<Rightarrow> clone_throws B v) ps"
| "clone_throws B v = None"
  by pat_completeness auto

termination clone_throws
proof (relation "measure (\<lambda>(B, v). size v)", goal_cases)
  case 1
  show ?case by simp
next
  case (2 B r xs x property v)
  then have "size property < size (Arr r xs)"
    by (simp only: size_element)
  with size_read [OF 2(3)] show ?case
    by simp
next
  case (3 B r ps p v)
  then have "(fst p, snd p) \<in> set ps"
    by simp
  then have "size (snd p) < size (Obj r ps)"
    by (rule size_property)
  with size_read [OF 3(2)] show ?case
    by simp
qed

definition postMessage :: "builtins \<Rightarrow> WorkerResponse \<Rightarrow> exn option" where
  "postMessage B response =
     (case response of
        Success results logs \<Rightarrow>
          first_thrown (\<lambda>result. case TestResult.error result of
                                   None \<Rightarrow> None
                                 | Some m \<Rightarrow> clone_throws B m) results
      | Failure m logs \<Rightarrow> clone_throws B m)"

text \<open>
  The handler posts one response, or none: when its \<^verbatim>\<open>catch\<close> block throws, nothing is
  posted.
\<close>

definition onmessage ::
  "'s engine \<Rightarrow> builtins \<Rightarrow> WorkerRequest \<Rightarrow> 's \<Rightarrow> WorkerResponse option \<times> 's"
where
  "onmessage E B request s =
     (case runUserCode E (console_seen B) (code request) s of (calls, loaded, s1) \<Rightarrow>
      case (case loaded of
              Inl e \<Rightarrow> (Inl e, s1, record_calls B calls [])
            | Inr solution \<Rightarrow>
                (case runTests E B solution (case cases request of None \<Rightarrow> [] | Some cs \<Rightarrow> cs)
                        (s1, record_calls B calls []) of
                   (Inl e, st) \<Rightarrow> (Inl e, st)
                 | (Inr results, s2, logs) \<Rightarrow>
                     (case postMessage B (Success results logs) of
                        Some e \<Rightarrow> (Inl e, s2, logs)
                      | None \<Rightarrow> (Inr (Success results logs), s2, logs))))
      of
        (Inr response, s2, logs) \<Rightarrow> (Some response, s2)
      | (Inl e, s2, logs) \<Rightarrow>
          (case message B e of
             Inl e' \<Rightarrow> (None, s2)
           | Inr m \<Rightarrow>
               (case postMessage B (Failure m logs) of
                  Some e' \<Rightarrow> (None, s2)
                | None \<Rightarrow> (Some (Failure m logs), s2))))"

section \<open>The host controller\<close>

text \<open>
  A string is a list of code units, here the characters up to \<^verbatim>\<open>U+00FF\<close>. Of these,
  \<^verbatim>\<open>String.prototype.trim\<close> strips the white space and line terminators below.
\<close>

record TestCaseDraft =
  case_id :: string
  args :: string
  expected :: string

definition is_whitespace :: "char \<Rightarrow> bool" where
  "is_whitespace c =
     (c \<in> set [CHR 0x09, CHR 0x0A, CHR 0x0B, CHR 0x0C, CHR 0x0D, CHR 0x20, CHR 0xA0])"

definition trim :: "string \<Rightarrow> string" where
  "trim s = rev (dropWhile is_whitespace (rev (dropWhile is_whitespace s)))"

definition parseValue :: "builtins \<Rightarrow> string \<Rightarrow> val" where
  "parseValue B raw =
     (let trimmed = trim raw in
      if trimmed = [] then Undefined
      else case JSON_parse B trimmed of
             Inr v \<Rightarrow> v
           | Inl e \<Rightarrow> Str trimmed)"

text \<open>The decimal digits of \<^verbatim>\<open>index + 1\<close> in a template string.\<close>

fun show_nat :: "nat \<Rightarrow> string" where
  "show_nat n =
     (if n < 10 then [''0123456789'' ! n]
      else show_nat (n div 10) @ [''0123456789'' ! (n mod 10)])"

declare show_nat.simps [simp del]

text \<open>
  The arguments of a case are held as the list of values that the runner's spread
  \<^verbatim>\<open>...testCase.args\<close> reads from the array it received, a copy made by the structured clone:
  \<^verbatim>\<open>undefined\<close> at a hole, and the value of the property elsewhere. An array with a getter
  that throws has no clone, and is never received; \<^verbatim>\<open>JSON.parse\<close> returns arrays of data
  properties without holes.
\<close>

fun spread_element :: "slot option \<Rightarrow> val" where
  "spread_element None = Undefined"
| "spread_element (Some (Data v)) = v"
| "spread_element (Some (Getter (Inr v))) = v"

fun elements :: "val \<Rightarrow> val list" where
  "elements (Arr r xs) = map spread_element xs"

text \<open>
  The body of the loop of \<^verbatim>\<open>handleRun\<close>, and the request it posts when there is a worker
  to post to. The runner receives the request as a structured clone, which is the same value.
\<close>

definition parse_case :: "builtins \<Rightarrow> nat \<Rightarrow> TestCaseDraft \<Rightarrow> TestCase" where
  "parse_case B index draft =
     (let argsValue = parseValue B (TestCaseDraft.args draft);
          expectedValue = parseValue B (TestCaseDraft.expected draft);
          arguments = (if isArray argsValue then elements argsValue
                       else filter (\<lambda>v. v \<noteq> Undefined) [argsValue]);
          labelBase = (if trim (TestCaseDraft.args draft) \<noteq> []
                       then ''('' @ TestCaseDraft.args draft @ '')'' else [])
      in \<lparr>TestCase.name = trim (''Case '' @ show_nat (index + 1) @ '' '' @ labelBase),
          args = arguments, expected = expectedValue\<rparr>)"

definition handleRun :: "builtins \<Rightarrow> string \<Rightarrow> TestCaseDraft list \<Rightarrow> WorkerRequest" where
  "handleRun B source drafts =
     \<lparr>code = source, cases = Some (map (\<lambda>(index, draft). parse_case B index draft) (enumerate 0 drafts))\<rparr>"

section \<open>Notions used to state the properties\<close>

text \<open>
  The values that a JSON text denotes, with the keys of every object distinct.
  \<^verbatim>\<open>JSON.parse\<close> yields no \<^verbatim>\<open>NaN\<close>, no \<^verbatim>\<open>undefined\<close>, no function, no hole and no accessor
  property.
\<close>

fun is_JSON :: "val \<Rightarrow> bool" where
  "is_JSON Null = True"
| "is_JSON (Bool b) = True"
| "is_JSON (Num n) = (n \<noteq> NaN)"
| "is_JSON (Str s) = True"
| "is_JSON (Arr r xs) =
     list_all (\<lambda>x. case x of None \<Rightarrow> False
                    | Some property \<Rightarrow> (case property of Data v \<Rightarrow> is_JSON v | Getter g \<Rightarrow> False)) xs"
| "is_JSON (Obj r ps) =
     (distinct (map fst ps)
      \<and> list_all (\<lambda>p. case snd p of Data v \<Rightarrow> is_JSON v | Getter g \<Rightarrow> False) ps)"
| "is_JSON v = False"






text \<open>
  The text one console argument contributes to its line: a string as it is; any other
  value as its JSON text, as nothing where \<^verbatim>\<open>JSON.stringify\<close> returns \<^verbatim>\<open>undefined\<close> instead of
  a text, and as its string conversion where \<^verbatim>\<open>JSON.stringify\<close> throws. There is no
  contribution when the string conversion throws in its turn. The line of a console call
  is the contributions of its arguments with single spaces between them, if every argument
  has one; the lines of a list of calls are those of the calls that have one.
\<close>

definition rendering :: "builtins \<Rightarrow> val \<Rightarrow> exn + string" where
  "rendering B v =
     (case v of
        Str s \<Rightarrow> Inr s
      | _ \<Rightarrow> (case JSON_stringify B v of
                Inl e \<Rightarrow> to_String B v
              | Inr None \<Rightarrow> Inr []
              | Inr (Some json) \<Rightarrow> Inr json))"

fun spaced :: "string list \<Rightarrow> string" where
  "spaced [] = []"
| "spaced [x] = x"
| "spaced (x # y # ys) = x @ '' '' @ spaced (y # ys)"

definition line :: "builtins \<Rightarrow> call \<Rightarrow> exn + string" where
  "line B c =
     (case array_map (rendering B) (snd c) of
        Inl e \<Rightarrow> Inl e
      | Inr texts \<Rightarrow> Inr (spaced texts))"

definition lines :: "builtins \<Rightarrow> call list \<Rightarrow> string list" where
  "lines B calls = concat (map (\<lambda>c. case line B c of Inl e \<Rightarrow> [] | Inr l \<Rightarrow> [l]) calls)"

text \<open>
  What the \<^verbatim>\<open>catch\<close> block of the loop of \<^verbatim>\<open>runTests\<close> reports of an exception: the
  \<^verbatim>\<open>message\<close> of an \<^verbatim>\<open>Error\<close>, the string conversion of any other value. The exception has
  a report unless reading the \<^verbatim>\<open>message\<close>, or the conversion, throws. \<open>catches_return\<close> holds
  of a run of the loop when every exception that a \<^verbatim>\<open>try\<close> block of the run throws has a
  report.
\<close>

definition report :: "builtins \<Rightarrow> exn \<Rightarrow> exn + val" where
  "report B thrown =
     (case thrown of
        Error property \<Rightarrow> read property
      | Thrown v \<Rightarrow> (case to_String B v of Inl e \<Rightarrow> Inl e | Inr s \<Rightarrow> Inr (Str s)))"


text \<open>
  A value can be posted when its structured clone exists; so can a list of results when
  the \<^verbatim>\<open>error\<close> of each can.
\<close>

definition cloneable :: "builtins \<Rightarrow> val \<Rightarrow> bool" where
  "cloneable B v = (clone_throws B v = None)"






subsection \<open>A sample engine\<close>

text \<open>
  Two objects without a string conversion: \<^verbatim>\<open>{ toString: null }\<close>, and one whose \<^verbatim>\<open>toJSON\<close>
  throws as well, so that it has no JSON text either.
\<close>

definition unconvertible :: val where
  "unconvertible = Obj 8 [(''toString'', Data Null)]"

definition unprintable :: val where
  "unprintable = Obj 7 [(''toJSON'', Data (Fn (Closure 1))), (''toString'', Data Null)]"

text \<open>
  The built-ins on the few values the examples use (elsewhere the tables are arbitrary),
  and the engine on a few program texts; any other text is treated as one that does not
  parse. The sample program keeps no state. Its entry point logs its argument; it throws an
  \<^verbatim>\<open>Error\<close> on \<^verbatim>\<open>null\<close>, throws \<^verbatim>\<open>{ toString: null }\<close> on \<^verbatim>\<open>false\<close>, returns the object without
  JSON text and string conversion on \<^verbatim>\<open>true\<close>, and returns its argument otherwise.
\<close>

definition example_builtins :: builtins where
  "example_builtins =
     \<lparr>to_String = (\<lambda>v. if v = Undefined then Inr ''undefined''
                        else if v = Null then Inr ''null''
                        else if v = unconvertible \<or> v = unprintable
                          then Inl (new_Error ''Cannot convert object to primitive value'')
                        else Inr ''[object Object]''),
      JSON_stringify = (\<lambda>v. if v = Undefined then Inr None
                        else if v = Null then Inr (Some ''null'')
                        else if v = Bool True then Inr (Some ''true'')
                        else if v = Bool False then Inr (Some ''false'')
                        else if v = Num (Finite 1) then Inr (Some ''1'')
                        else if v = Num (Finite 2) then Inr (Some ''2'')
                        else if v = unprintable then Inl (new_Error ''toJSON failed'')
                        else Inr (Some ''{}'')),
      JSON_parse = (\<lambda>source. if source = ''1'' then Inr (Num (Finite 1))
                        else if source = ''2'' then Inr (Num (Finite 2))
                        else if source = ''null'' then Inr Null
                        else if source = ''true'' then Inr (Bool True)
                        else if source = ''false'' then Inr (Bool False)
                        else if source = ''[1, 2]''
                          then Inr (Arr 1 [Some (Data (Num (Finite 1))), Some (Data (Num (Finite 2)))])
                        else Inl (new_Error ''Unexpected token'')),
      call_stack = 3000,
      DataCloneError_message = ''The object could not be cloned.''\<rparr>"

definition example_program :: string where
  "example_program =
     ''console.log(`loading`); function solution(x) { console.warn(`called with`, x); '' @
     ''if (x === null) throw new Error(`no value`); '' @
     ''if (x === false) throw { toString: null }; '' @
     ''if (x === true) return { toJSON() { throw new Error(`toJSON failed`); }, toString: null }; '' @
     ''return x; }''"

definition example_engine :: "unit engine" where
  "example_engine =
     \<lparr>evaluate = (\<lambda>sandboxConsole source s.
        if source = example_program
        then ([(ConsoleLog, [Str ''loading''])], Inr (End (Fn (Closure 0)) (Obj 0 [])), s)
        else if source = ''throw new Error(``)'' then ([], Inl (new_Error []), s)
        else if source = ''throw { toString: null }'' then ([], Inl (Thrown unconvertible), s)
        else if source = ''throw Object.assign(new Error(), { message: 5 })''
          then ([], Inl (Error (Data (Num (Finite 5)))), s)
        else ([], Inl (new_Error ''Unexpected token''), s)),
      invoke = (\<lambda>sandboxConsole f arguments s.
        let x = (case arguments of [] \<Rightarrow> Undefined | v # rest \<Rightarrow> v) in
        ([(ConsoleWarn, [Str ''called with'', x])],
         (case sandboxConsole ConsoleWarn [Str ''called with'', x] of
            Some e \<Rightarrow> Inl e
          | None \<Rightarrow>
              if x = Null then Inl (new_Error ''no value'')
              else if x = Bool False then Inl (Thrown unconvertible)
              else if x = Bool True then Inr unprintable
              else Inr x), s))\<rparr>"

text \<open>Three drafts as the page holds them, and the cases \<^verbatim>\<open>handleRun\<close> makes of them.\<close>

definition example_drafts :: "TestCaseDraft list" where
  "example_drafts =
     [\<lparr>case_id = ''case-1'', args = ''1'', expected = ''1''\<rparr>,
      \<lparr>case_id = ''case-2'', args = ''null'', expected = ''null''\<rparr>,
      \<lparr>case_id = ''case-3'', args = '' 2'', expected = ''1''\<rparr>]"

definition example_cases :: "TestCase list" where
  "example_cases =
     [\<lparr>TestCase.name = ''Case 1 (1)'', args = [Num (Finite 1)], expected = Num (Finite 1)\<rparr>,
      \<lparr>TestCase.name = ''Case 2 (null)'', args = [Null], expected = Null\<rparr>,
      \<lparr>TestCase.name = ''Case 3 ( 2)'', args = [Num (Finite 2)], expected = Num (Finite 1)\<rparr>]"


section \<open>Properties of \<^verbatim>\<open>deepEqual\<close>\<close>

lemma Object_is_refl: "Object_is a a"
  by (cases a) simp_all

lemma deepEqual_same: "Object_is a b \<Longrightarrow> deepEqual room a b = Inr True"
  by (subst deepEqual.simps) simp

lemma deepEqual_refl: "deepEqual room a a = Inr True"
  by (simp add: deepEqual_same Object_is_refl)


lemma deepEqual_primitive_left:
  "typeof a \<noteq> ''object'' \<or> falsy a \<Longrightarrow> deepEqual room a b = Inr (Object_is a b)"
  by (subst deepEqual.simps) auto

lemma deepEqual_primitive_right:
  "typeof b \<noteq> ''object'' \<or> falsy b \<Longrightarrow> deepEqual room a b = Inr (Object_is a b)"
  by (subst deepEqual.simps) auto















text \<open>
  The instance of C1: \<^verbatim>\<open>deepEqual({a:1,b:[1,2]}, {b:[1,2],a:1})\<close> is true, wherever the
  stack has room for the two nested calls.
\<close>

lemma deepEqual_key_order:
  "deepEqual (Suc (Suc room))
     (Obj 1 [(''a'', Data (Num (Finite 1))),
             (''b'', Data (Arr 2 [Some (Data (Num (Finite 1))), Some (Data (Num (Finite 2)))]))])
     (Obj 3 [(''b'', Data (Arr 4 [Some (Data (Num (Finite 1))), Some (Data (Num (Finite 2)))])),
             (''a'', Data (Num (Finite 1)))])
   = Inr True"
  by (simp add: deepEqual.simps [of "Suc (Suc room)"] deepEqual.simps [of "Suc room"]
      deepEqual_same)

text \<open>
  C1. The claim fails from right to left: \<^verbatim>\<open>deepEqual({a: undefined}, {b: 1})\<close> is true,
  though the own keys of the two objects are \<^verbatim>\<open>a\<close> and \<^verbatim>\<open>b\<close>. The numbers of keys agree, and
  the read of the absent \<^verbatim>\<open>a\<close> in the second object gives \<^verbatim>\<open>undefined\<close>, the value at \<^verbatim>\<open>a\<close>
  in the first. This holds wherever the stack has room for the one nested call.
\<close>

theorem deepEqual_absent_key:
  "deepEqual (Suc room) (Obj 1 [(''a'', Data Undefined)]) (Obj 2 [(''b'', Data (Num (Finite 1)))]) = Inr True
   \<and> Object_keys (Obj 1 [(''a'', Data Undefined)]) = Inr [''a'']
   \<and> Object_keys (Obj 2 [(''b'', Data (Num (Finite 1)))]) = Inr [''b'']"
  by (simp add: deepEqual.simps [of "Suc room"] deepEqual_same inherited_def ObjectPrototype_methods_def)

text \<open>
  C5. \<^verbatim>\<open>deepEqual\<close> is not symmetric on JSON values: for \<^verbatim>\<open>a = JSON.parse('{"__proto__": {}}')\<close>
  and \<^verbatim>\<open>b = JSON.parse('{"x": 1}')\<close>, \<^verbatim>\<open>deepEqual(a, b)\<close> is true and \<^verbatim>\<open>deepEqual(b, a)\<close> is
  false. In the first call the read \<^verbatim>\<open>b["__proto__"]\<close> yields \<^verbatim>\<open>Object.prototype\<close>, which has
  no enumerable own property, as \<^verbatim>\<open>{}\<close> has none.
\<close>

theorem deepEqual_not_symmetric:
  "deepEqual (Suc room) (Obj 1 [(''__proto__'', Data (Obj 2 []))]) (Obj 3 [(''x'', Data (Num (Finite 1)))])
     = Inr True
   \<and> deepEqual (Suc room) (Obj 3 [(''x'', Data (Num (Finite 1)))]) (Obj 1 [(''__proto__'', Data (Obj 2 []))])
     = Inr False
   \<and> is_JSON (Obj 1 [(''__proto__'', Data (Obj 2 []))])
   \<and> is_JSON (Obj 3 [(''x'', Data (Num (Finite 1)))])"
  by (simp add: deepEqual.simps [of "Suc room"] deepEqual.simps [of room "Obj 2 []"]
      deepEqual_primitive_left inherited_def ObjectPrototype_methods_def)




section \<open>Properties of the runner\<close>

subsection \<open>The console and the log buffer\<close>

lemma serialize_rendering:
  "rendering B v = (case serialize B v of Inl e \<Rightarrow> Inl e | Inr None \<Rightarrow> Inr [] | Inr (Some s) \<Rightarrow> Inr s)"
  by (cases v; simp add: serialize_def rendering_def split: sum.splits option.splits)

lemma join_spaced:
  "join '' '' texts = spaced (map (\<lambda>t. case t of None \<Rightarrow> [] | Some s \<Rightarrow> s) texts)"
  by (induction texts rule: induct_list012) simp_all

lemma array_map_rendering:
  "array_map (rendering B) arguments =
     (case array_map (serialize B) arguments of
        Inl e \<Rightarrow> Inl e
      | Inr texts \<Rightarrow> Inr (map (\<lambda>t. case t of None \<Rightarrow> [] | Some s \<Rightarrow> s) texts))"
  by (induction arguments) (auto simp: serialize_rendering split: sum.splits option.splits)

lemma logger_line:
  "logger B arguments logs =
     (case line B (v, arguments) of Inl e \<Rightarrow> Inl e | Inr l \<Rightarrow> Inr (logs @ [l]))"
  by (simp add: logger_def line_def array_map_rendering join_spaced split: sum.splits)

lemma console_line:
  "console B v arguments logs =
     (case line B (v, arguments) of Inl e \<Rightarrow> Inl e | Inr l \<Rightarrow> Inr (logs @ [l]))"
  by (cases v) (simp_all add: logger_line [of B arguments logs v])

lemma console_seen_line:
  "console_seen B v arguments = (case line B (v, arguments) of Inl e \<Rightarrow> Some e | Inr l \<Rightarrow> None)"
  by (simp add: console_seen_def console_line split: sum.splits)

lemma foldl_append: "foldl (\<lambda>acc c. acc @ g c) acc calls = acc @ concat (map g calls)"
  by (induction calls arbitrary: acc) simp_all

lemma record_calls_lines: "record_calls B calls logs = logs @ lines B calls"
proof -
  have "(\<lambda>logs (v, arguments). case console B v arguments logs of Inl e \<Rightarrow> logs | Inr logs' \<Rightarrow> logs')
      = (\<lambda>logs c. logs @ (case line B c of Inl e \<Rightarrow> [] | Inr l \<Rightarrow> [l]))"
    by (auto simp: fun_eq_iff console_line split: sum.splits)
  then show ?thesis
    by (simp add: record_calls_def lines_def foldl_append)
qed


subsection \<open>The loop of \<^verbatim>\<open>runTests\<close>\<close>

lemma message_report: "message B thrown = report B thrown"
  by (cases "(B, thrown)" rule: message.cases) (simp_all add: report_def)















subsection \<open>The response\<close>



lemma postMessage_Failure: "postMessage B (Failure m logs) = None \<longleftrightarrow> cloneable B m"
  by (simp add: postMessage_def cloneable_def)



lemma onmessage_callable:
  assumes "runUserCode E (console_seen B) (code request) s = (calls, Inr solution, s1)"
    and "typeof solution = ''function''"
    and "runTests E B solution (case cases request of None \<Rightarrow> [] | Some cs \<Rightarrow> cs) (s1, lines B calls)
           = (outcome, s2, logs)"
  shows "onmessage E B request s =
    (case outcome of
       Inr results \<Rightarrow>
         (case postMessage B (Success results logs) of
            None \<Rightarrow> (Some (Success results logs), s2)
          | Some e \<Rightarrow>
              ((case report B e of
                  Inl e' \<Rightarrow> None
                | Inr m \<Rightarrow> if cloneable B m then Some (Failure m logs) else None), s2))
     | Inl e \<Rightarrow>
         ((case report B e of
             Inl e' \<Rightarrow> None
           | Inr m \<Rightarrow> if cloneable B m then Some (Failure m logs) else None), s2))"
  using assms
  by (auto simp: onmessage_def record_calls_lines message_report postMessage_def cloneable_def
      split: sum.splits option.splits)


text \<open>
  A run of the sample program on the three sample cases: the first passes, on the second
  the entry point throws, the third is a mismatch.
\<close>

lemma example_request:
  "handleRun example_builtins example_program example_drafts =
     \<lparr>code = example_program, cases = Some example_cases\<rparr>"
  by code_simp

lemma example_run:
  "onmessage example_engine example_builtins \<lparr>code = example_program, cases = Some example_cases\<rparr> () =
    (Some (Success
      [\<lparr>TestResult.name = ''Case 1 (1)'', pass = True, error = None, expected = None, actual = None\<rparr>,
       \<lparr>TestResult.name = ''Case 2 (null)'', pass = False, error = Some (Str ''no value''),
        expected = None, actual = None\<rparr>,
       \<lparr>TestResult.name = ''Case 3 ( 2)'', pass = False, error = Some (Str ''Output mismatch.''),
        expected = Some ''1'', actual = Some ''2''\<rparr>]
      [''loading'', ''called with 1'', ''called with null'', ''called with 2'']), ())"
  by code_simp













text \<open>
  C9. A request whose \<^verbatim>\<open>cases\<close> is \<^verbatim>\<open>null\<close> or \<^verbatim>\<open>undefined\<close>, with a program text that
  yields a function, is answered by \<^verbatim>\<open>{ ok: true, results: [], logs }\<close>, the logs being the
  lines of the console calls made while the text ran.
\<close>

theorem onmessage_without_cases:
  assumes "cases request = None"
    and "runUserCode E (console_seen B) (code request) s = (calls, Inr solution, s1)"
    and "typeof solution = ''function''"
  shows "onmessage E B request s = (Some (Success [] (lines B calls)), s1)"
proof -
  have "runTests E B solution (case cases request of None \<Rightarrow> [] | Some cs \<Rightarrow> cs) (s1, lines B calls)
      = (Inr [], s1, lines B calls)"
    using assms(1,3) by (simp add: runTests_def)
  from onmessage_callable [OF assms(2,3) this] show ?thesis
    by (simp add: postMessage_def)
qed

theorem onmessage_without_cases_witness:
  "cases \<lparr>code = example_program, cases = None\<rparr> = None
   \<and> runUserCode example_engine (console_seen example_builtins)
         (code \<lparr>code = example_program, cases = None\<rparr>) ()
       = ([(ConsoleLog, [Str ''loading''])], Inr (Fn (Closure 0)), ())
   \<and> typeof (Fn (Closure 0)) = ''function''
   \<and> onmessage example_engine example_builtins \<lparr>code = example_program, cases = None\<rparr> ()
       = (Some (Success [] [''loading'']), ())"
proof -
  have load: "runUserCode example_engine (console_seen example_builtins)
         (code \<lparr>code = example_program, cases = None\<rparr>) ()
       = ([(ConsoleLog, [Str ''loading''])], Inr (Fn (Closure 0)), ())"
    by code_simp
  have lines: "lines example_builtins [(ConsoleLog, [Str ''loading''])] = [''loading'']"
    by code_simp
  have "onmessage example_engine example_builtins \<lparr>code = example_program, cases = None\<rparr> ()
       = (Some (Success [] (lines example_builtins [(ConsoleLog, [Str ''loading''])])), ())"
    by (rule onmessage_without_cases [OF _ load]) simp_all
  with load show ?thesis
    by (simp add: lines)
qed

section \<open>Properties of the host controller\<close>




lemma parse_case_name:
  "TestCase.name (parse_case B index draft) =
     trim (''Case '' @ show_nat (index + 1) @ '' '' @
           (if trim (TestCaseDraft.args draft) \<noteq> [] then ''('' @ TestCaseDraft.args draft @ '')'' else []))"
  by (simp add: parse_case_def Let_def)







end
